theory Spec2Isabelle
  imports Complex_Main
begin

section \<open>jina/logging/profile.py: timing and progress helpers\<close>

text \<open>
  The module is embedded function by function. Python floats are read as real numbers
  (rounding, infinities and NaN are outside the model), Python integers as \<open>int\<close>,
  text as HOL strings. Everything a method does besides returning is explicit: the
  object is passed in and returned, and the process environment (the monotonic clock,
  the memory counter, standard output, the logger sink) is a \<open>world\<close> value threaded
  through every call. A raised exception is the \<open>Inl\<close> branch of the result; the object
  and the world are returned beside it, since Python keeps every mutation made before
  the raise.
\<close>

subsection \<open>Exceptions and the environment\<close>

datatype exn =
    IndexError
  | ZeroDivisionError
  | AttributeError
  | Exception string  \<comment> \<open>any other exception class, by name (raised by caller-supplied code)\<close>

datatype out_event = Write string | Flush

datatype logger = Logger string

text \<open>
  \<open>clock n\<close> is the value the \<open>n\<close>-th call of \<open>time.perf_counter()\<close> returns and
  \<open>maxrss n\<close> the \<open>ru_maxrss\<close> field of the \<open>n\<close>-th \<open>getrusage\<close> call; \<open>ticks\<close> and
  \<open>samples\<close> count the calls made so far. \<open>stdout\<close> is the sequence of writes and
  flushes on \<open>sys.stdout\<close>, \<open>logged\<close> the \<open>info\<close> records handed to loggers.
\<close>

record world =
  clock :: "nat \<Rightarrow> real"
  ticks :: nat
  maxrss :: "nat \<Rightarrow> int"
  samples :: nat
  stdout :: "out_event list"
  logged :: "(logger \<times> string) list"

definition perf_counter :: "world \<Rightarrow> real \<times> world" where
  "perf_counter w = (clock w (ticks w), w\<lparr>ticks := Suc (ticks w)\<rparr>)"

definition stdout_write :: "string \<Rightarrow> world \<Rightarrow> world" where
  "stdout_write s w = w\<lparr>stdout := stdout w @ [Write s]\<rparr>"

definition stdout_flush :: "world \<Rightarrow> world" where
  "stdout_flush w = w\<lparr>stdout := stdout w @ [Flush]\<rparr>"

definition logger_info :: "logger \<Rightarrow> string \<Rightarrow> world \<Rightarrow> world" where
  "logger_info lg msg w = w\<lparr>logged := logged w @ [(lg, msg)]\<rparr>"

text \<open>
  \<open>print(x, end=e, flush=True)\<close>: the text, then the end string, then a flush.
\<close>

definition print_end_flush :: "string \<Rightarrow> string \<Rightarrow> world \<Rightarrow> world" where
  "print_end_flush s e w = stdout_flush (stdout_write e (stdout_write s w))"

text \<open>
  Collaborators that live outside this file (\<open>jina.helper\<close>, \<open>jina.logging.predefined\<close>)
  and the formatting built-ins of Python are parameters of the model: nothing is
  assumed about the strings they produce.
\<close>

record helpers =
  colored :: "string \<Rightarrow> string option \<Rightarrow> string list \<Rightarrow> string"
  get_readable_size :: "real \<Rightarrow> string"
  get_readable_time :: "real \<Rightarrow> string"
  default_logger :: logger
  format_float :: "string \<Rightarrow> real \<Rightarrow> string"  \<comment> \<open>\<open>format(x, spec)\<close>\<close>
  str_float :: "real \<Rightarrow> string"  \<comment> \<open>\<open>str(x)\<close>\<close>
  str_timedelta :: "real \<Rightarrow> string"  \<comment> \<open>\<open>str(datetime.timedelta(seconds=x))\<close>\<close>

subsection \<open>Memory sampling and the profiling decorator\<close>

definition used_memory :: "real \<Rightarrow> world \<Rightarrow> (exn + real) \<times> world" where
  "used_memory unit w =
     (let w1 = w\<lparr>samples := Suc (samples w)\<rparr>
      in if unit = 0 then (Inl ZeroDivisionError, w1)
         else (Inr (real_of_int (maxrss w (samples w)) / unit), w1))"

text \<open>
  The wrapped callable is any function of the world that returns a value or raises;
  its arguments are already applied.
\<close>

definition arg_wrapper ::
  "helpers \<Rightarrow> string \<Rightarrow> (world \<Rightarrow> (exn + 'r) \<times> world) \<Rightarrow> world \<Rightarrow> (exn + 'r) \<times> world" where
  "arg_wrapper H qualname func w =
     (let (start_t, w1) = perf_counter w
      in case used_memory 1 w1 of
           (Inl e, w2) \<Rightarrow> (Inl e, w2)
         | (Inr start_mem, w2) \<Rightarrow>
             (case func w2 of
                (Inl e, w3) \<Rightarrow> (Inl e, w3)
              | (Inr r, w3) \<Rightarrow>
                  (let (t, w4) = perf_counter w3;
                       elapsed = t - start_t
                   in case used_memory 1 w4 of
                        (Inl e, w5) \<Rightarrow> (Inl e, w5)
                      | (Inr end_mem, w5) \<Rightarrow>
                          (let level_prefix = '''';
                               mem_status = ''memory '' @ [CHR 0xCE, CHR 0x94] @ '' ''
                                 @ get_readable_size H (end_mem - start_mem) @ '' ''
                                 @ get_readable_size H start_mem @ '' -> ''
                                 @ get_readable_size H end_mem
                           in (Inr r,
                               logger_info (default_logger H)
                                 (level_prefix @ '' '' @ qualname @ '' time: ''
                                    @ str_float H elapsed @ ''s '' @ mem_status) w5)))))"

subsection \<open>TimeDict\<close>

text \<open>
  The four \<open>defaultdict(float)\<close> mappings are partial maps; reading a missing key of a
  \<open>defaultdict\<close> stores the default \<open>0.0\<close> under it and returns it. The key stack is a
  Python list used from its end: \<open>append\<close> adds a last element, \<open>pop()\<close> and \<open>[-1]\<close>
  take the last one and raise \<open>IndexError\<close> on the empty list.
\<close>

record time_dict =
  accum_time :: "string \<rightharpoonup> real"
  first_start_time :: "string \<rightharpoonup> real"
  start_time :: "string \<rightharpoonup> real"
  end_time :: "string \<rightharpoonup> real"
  key_stack :: "string list"
  pending_reset :: bool

definition dd_get :: "(string \<rightharpoonup> real) \<Rightarrow> string \<Rightarrow> real \<times> (string \<rightharpoonup> real)" where
  "dd_get m k = (case m k of None \<Rightarrow> (0, m(k \<mapsto> 0)) | Some v \<Rightarrow> (v, m))"

definition td_init :: time_dict where
  "td_init = \<lparr>accum_time = Map.empty, first_start_time = Map.empty,
              start_time = Map.empty, end_time = Map.empty,
              key_stack = [], pending_reset = False\<rparr>"

definition td_call :: "string \<Rightarrow> time_dict \<Rightarrow> time_dict" where
  "td_call key self = self\<lparr>key_stack := key_stack self @ [key]\<rparr>"

definition td_reset :: "time_dict \<Rightarrow> time_dict" where
  "td_reset self =
     (if key_stack self \<noteq> [] then self\<lparr>pending_reset := True\<rparr>
      else self\<lparr>accum_time := Map.empty, start_time := Map.empty,
                first_start_time := Map.empty, end_time := Map.empty,
                key_stack := [], pending_reset := False\<rparr>)"

definition td_enter :: "time_dict \<times> world \<Rightarrow> (exn + unit) \<times> time_dict \<times> world" where
  "td_enter sw =
     (case sw of (self, w) \<Rightarrow>
        if key_stack self = [] then (Inl IndexError, self, w)
        else
          (let key = last (key_stack self);
               (self1, w1) =
                 (if first_start_time self key = None
                  then (let (t, w') = perf_counter w
                        in (self\<lparr>first_start_time := (first_start_time self)(key \<mapsto> t)\<rparr>, w'))
                  else (self, w));
               (t, w2) = perf_counter w1
           in (Inr (), self1\<lparr>start_time := (start_time self1)(key \<mapsto> t)\<rparr>, w2)))"

definition td_exit :: "time_dict \<times> world \<Rightarrow> (exn + unit) \<times> time_dict \<times> world" where
  "td_exit sw =
     (case sw of (self, w) \<Rightarrow>
        if key_stack self = [] then (Inl IndexError, self, w)
        else
          (let key = last (key_stack self);
               self1 = self\<lparr>key_stack := butlast (key_stack self)\<rparr>;
               (t, w1) = perf_counter w;
               self2 = self1\<lparr>end_time := (end_time self1)(key \<mapsto> t)\<rparr>;
               (a, accum1) = dd_get (accum_time self2) key;
               (e, end1) = dd_get (end_time self2) key;
               (s, start1) = dd_get (start_time self2) key;
               self3 = self2\<lparr>accum_time := accum1(key \<mapsto> a + (e - s)),
                             end_time := end1, start_time := start1\<rparr>
           in (Inr (), if pending_reset self3 then td_reset self3 else self3, w1)))"

subsection \<open>TimeContext\<close>

text \<open>
  \<open>start\<close> and \<open>readable_duration\<close> are attributes that exist only once \<open>__enter__\<close>
  and \<open>__exit__\<close> have set them: reading one before that raises \<open>AttributeError\<close>.
\<close>

record time_context =
  task_name :: string
  tc_logger :: "logger option"
  duration :: real
  start :: "real option"
  readable_duration :: "string option"

definition tc_init :: "string \<Rightarrow> logger option \<Rightarrow> time_context" where
  "tc_init name lg = \<lparr>task_name = name, tc_logger = lg, duration = 0,
                       start = None, readable_duration = None\<rparr>"

definition tc_enter_msg :: "time_context \<times> world \<Rightarrow> time_context \<times> world" where
  "tc_enter_msg sw =
     (case sw of (self, w) \<Rightarrow>
        case tc_logger self of
          Some lg \<Rightarrow> (self, logger_info lg (task_name self @ ''...'') w)
        | None \<Rightarrow> (self, print_end_flush (task_name self) ('' ...'' @ [CHR 0x09]) w))"

definition tc_enter :: "time_context \<times> world \<Rightarrow> time_context \<times> world" where
  "tc_enter sw =
     (case sw of (self, w) \<Rightarrow>
        let (t, w1) = perf_counter w
        in tc_enter_msg (self\<lparr>start := Some t\<rparr>, w1))"

definition now :: "'a time_context_scheme \<times> world \<Rightarrow> (exn + real) \<times> world" where
  "now sw =
     (case sw of (self, w) \<Rightarrow>
        let (t, w1) = perf_counter w
        in case start self of
             None \<Rightarrow> (Inl AttributeError, w1)
           | Some s \<Rightarrow> (Inr (t - s), w1))"

definition tc_exit_msg ::
  "helpers \<Rightarrow> time_context \<times> world \<Rightarrow> (exn + unit) \<times> time_context \<times> world" where
  "tc_exit_msg H sw =
     (case sw of (self, w) \<Rightarrow>
        case readable_duration self of
          None \<Rightarrow> (Inl AttributeError, self, w)
        | Some rd \<Rightarrow>
            (let msg = task_name self @ '' takes '' @ rd @ '' (''
                         @ format_float H ''.2f'' (duration self) @ ''s)''
             in case tc_logger self of
                  Some lg \<Rightarrow> (Inr (), self, logger_info lg msg w)
                | None \<Rightarrow>
                    (Inr (), self, print_end_flush (colored H msg None []) [CHR 0x0A] w)))"

definition tc_exit ::
  "helpers \<Rightarrow> time_context \<times> world \<Rightarrow> (exn + unit) \<times> time_context \<times> world" where
  "tc_exit H sw =
     (case sw of (self, w) \<Rightarrow>
        case now (self, w) of
          (Inl e, w1) \<Rightarrow> (Inl e, self, w1)
        | (Inr d, w1) \<Rightarrow>
            tc_exit_msg H
              (self\<lparr>duration := d, readable_duration := Some (get_readable_time H d)\<rparr>, w1))"

subsection \<open>ProgressBar\<close>

datatype message_on_done =
    Literal string
  | Callable "exn + string"  \<comment> \<open>a zero-argument callable, given by what calling it yields\<close>

record progress_bar = time_context +
  completed_progress :: real
  last_rendered_progress :: real
  num_update_called :: int
  on_done :: "message_on_done option"

text \<open>\<open>_bars_on_row\<close> is assigned once, in \<open>__init__\<close>, and never changed.\<close>

definition bars_on_row :: int where
  "bars_on_row = 40"

definition col_width :: nat where
  "col_width = 100"

definition clear_line :: string where
  "clear_line = [CHR 0x0D] @ replicate col_width CHR '' '' @ [CHR 0x0D]"

definition heavy_bar :: string where  \<comment> \<open>U+2501, in UTF-8\<close>
  "heavy_bar = [CHR 0xE2, CHR 0x94, CHR 0x81]"

definition half_bar :: string where  \<comment> \<open>U+2578, in UTF-8\<close>
  "half_bar = [CHR 0xE2, CHR 0x95, CHR 0xB8]"

definition pb_init :: "string \<Rightarrow> message_on_done option \<Rightarrow> progress_bar" where
  "pb_init description message_on_done =
     \<lparr>task_name = description, tc_logger = None, duration = 0,
      start = None, readable_duration = None,
      completed_progress = 0, last_rendered_progress = 0,
      num_update_called = 0, on_done = message_on_done\<rparr>"

text \<open>Python's \<open>x % y\<close> on floats, for \<open>y \<noteq> 0\<close>: the remainder has the sign of \<open>y\<close>.\<close>

definition py_mod :: "real \<Rightarrow> real \<Rightarrow> real" where
  "py_mod x y = x - y * of_int \<lfloor>x / y\<rfloor>"

text \<open>\<open>s * n\<close> on a string: \<open>n\<close> copies, none when \<open>n\<close> is not positive.\<close>

definition str_mul :: "string \<Rightarrow> int \<Rightarrow> string" where
  "str_mul s n = concat (replicate (nat n) s)"

text \<open>\<open>a or b\<close> on an optional string: \<open>None\<close> and the empty string are false.\<close>

definition str_or :: "string option \<Rightarrow> string \<Rightarrow> string" where
  "str_or a b = (case a of None \<Rightarrow> b | Some s \<Rightarrow> if s = [] then b else s)"

text \<open>The format field \<open>{:>10}\<close>: right-aligned in ten columns.\<close>

definition rjust10 :: "string \<Rightarrow> string" where
  "rjust10 s = replicate (10 - length s) CHR '' '' @ s"

text \<open>Lines 247 to 254: the number of bars drawn for a progress value.\<close>

definition num_bars :: "real \<Rightarrow> real" where
  "num_bars cp =
     (let nb = py_mod cp (of_int bars_on_row)
      in if nb = 0 \<and> cp \<noteq> 0 then of_int bars_on_row else max nb 1)"

definition num_fullbars :: "real \<Rightarrow> int" where
  "num_fullbars cp = \<lfloor>num_bars cp\<rfloor>"

definition num_halfbars :: "real \<Rightarrow> int" where
  "num_halfbars cp = (if num_bars cp - of_int (num_fullbars cp) \<le> 0.5 then 1 else 0)"

text \<open>Lines 256 to 287: the line written by a render.\<close>

definition bar_line ::
  "helpers \<Rightarrow> string \<Rightarrow> real \<Rightarrow> bool \<Rightarrow> string \<Rightarrow> string \<Rightarrow> string \<Rightarrow> string" where
  "bar_line H description_str cp all_completed time_str speed_str msg_str =
     (let bar_color = (if all_completed then ''yellow'' else ''green'');
          unfinished_bar_color = (if all_completed then ''yellow'' else ''green'')
      in rjust10 description_str @ '' ''
         @ (colored H (str_mul heavy_bar (num_fullbars cp)) (Some bar_color) []
            @ colored H half_bar
                (Some (if num_halfbars cp \<noteq> 0 then bar_color else unfinished_bar_color)) [])
         @ colored H (str_mul heavy_bar (bars_on_row - num_fullbars cp))
             (Some unfinished_bar_color) [''dark'']
         @ '' '' @ colored H time_str (Some ''cyan'') []
         @ '' '' @ speed_str
         @ '' '' @ msg_str)"

definition update ::
  "helpers \<Rightarrow> real \<Rightarrow> string option \<Rightarrow> string option \<Rightarrow> bool \<Rightarrow> bool
     \<Rightarrow> progress_bar \<times> world \<Rightarrow> (exn + unit) \<times> progress_bar \<times> world" where
  "update H progress description message all_completed first_enter sw =
     (case sw of (self, w) \<Rightarrow>
        let self1 = self\<lparr>num_update_called :=
                            num_update_called self + (if first_enter then 0 else 1),
                          completed_progress := completed_progress self + progress\<rparr>
        in if \<bar>completed_progress self1 - last_rendered_progress self1\<bar> < 0.5
              \<and> \<not> all_completed
           then (Inr (), self1, w)
           else
             (let self2 = self1\<lparr>last_rendered_progress := completed_progress self1\<rparr>;
                  w1 = stdout_write clear_line w;
                  (t, w2) = perf_counter w1
              in case start self2 of
                   None \<Rightarrow> (Inl AttributeError, self2, w2)
                 | Some s \<Rightarrow>
                     (let elapsed = t - s;
                          time_str =
                            (if first_enter then ''-:--:--''
                             else takeWhile (\<lambda>c. c \<noteq> CHR ''.'') (str_timedelta H elapsed))
                      in if \<not> first_enter \<and> elapsed = 0
                         then (Inl ZeroDivisionError, self2, w2)
                         else
                           (let speed_str =
                                  (if first_enter then ''estimating...''
                                   else format_float H ''3.1f''
                                          (of_int (num_update_called self2) / elapsed)
                                        @ '' step/s'');
                                description_str =
                                  str_or description (str_or (Some (task_name self2)) []);
                                msg_str = str_or message []
                            in (Inr (), self2,
                                stdout_flush
                                  (stdout_write
                                     (bar_line H description_str (completed_progress self2)
                                        all_completed time_str speed_str msg_str)
                                     w2))))))"

definition pb_enter_msg ::
  "helpers \<Rightarrow> progress_bar \<times> world \<Rightarrow> (exn + unit) \<times> progress_bar \<times> world" where
  "pb_enter_msg H sw = update H 1.0 None None False True sw"

text \<open>
  \<open>__enter__\<close> and \<open>__exit__\<close> are inherited from TimeContext; their calls of
  \<open>_enter_msg\<close> and \<open>_exit_msg\<close> reach the overrides of ProgressBar.
\<close>

definition pb_enter ::
  "helpers \<Rightarrow> progress_bar \<times> world \<Rightarrow> (exn + unit) \<times> progress_bar \<times> world" where
  "pb_enter H sw =
     (case sw of (self, w) \<Rightarrow>
        let (t, w1) = perf_counter w
        in pb_enter_msg H (self\<lparr>start := Some t\<rparr>, w1))"

definition default_final_msg :: "helpers \<Rightarrow> real \<Rightarrow> string \<Rightarrow> string" where
  "default_final_msg H cp rd =
     [CHR 0x1B] @ ''[K'' @ format_float H ''.0f'' cp @ '' steps done in '' @ rd"

text \<open>
  \<open>if self._on_done\<close> is Python truth: \<open>None\<close> and the empty string are false, a
  callable is true.
\<close>

definition final_msg_of ::
  "helpers \<Rightarrow> message_on_done option \<Rightarrow> real \<Rightarrow> string \<Rightarrow> exn + string" where
  "final_msg_of H od cp rd =
     (case od of
        None \<Rightarrow> Inr (default_final_msg H cp rd)
      | Some (Literal s) \<Rightarrow> Inr (if s = [] then default_final_msg H cp rd else s)
      | Some (Callable r) \<Rightarrow> r)"

definition pb_exit_msg ::
  "helpers \<Rightarrow> progress_bar \<times> world \<Rightarrow> (exn + unit) \<times> progress_bar \<times> world" where
  "pb_exit_msg H sw =
     (case sw of (self, w) \<Rightarrow>
        if last_rendered_progress self > 1 then
          (case readable_duration self of
             None \<Rightarrow> (Inl AttributeError, self, w)
           | Some rd \<Rightarrow>
               (case final_msg_of H (on_done self) (completed_progress self) rd of
                  Inl e \<Rightarrow> (Inl e, self, w)
                | Inr final_msg \<Rightarrow>
                    (case update H 0 None None True False (self, w) of
                       (Inl e, self1, w1) \<Rightarrow> (Inl e, self1, w1)
                     | (Inr u, self1, w1) \<Rightarrow>
                         (Inr (), self1,
                          stdout_flush
                            (stdout_write [CHR 0x0A] (stdout_write final_msg w1))))))
        else (Inr (), self, stdout_flush (stdout_write clear_line w)))"

definition pb_exit ::
  "helpers \<Rightarrow> progress_bar \<times> world \<Rightarrow> (exn + unit) \<times> progress_bar \<times> world" where
  "pb_exit H sw =
     (case sw of (self, w) \<Rightarrow>
        case now (self, w) of
          (Inl e, w1) \<Rightarrow> (Inl e, self, w1)
        | (Inr d, w1) \<Rightarrow>
            pb_exit_msg H
              (self\<lparr>duration := d, readable_duration := Some (get_readable_time H d)\<rparr>, w1))"

subsection \<open>Call sequences on a TimeDict\<close>

text \<open>
  A client drives a TimeDict by \<open>td(key)\<close>, by entering and leaving \<open>with\<close> blocks and
  by \<open>reset()\<close>. A run performs such calls in order and stops at the first one that
  raises.
\<close>

datatype td_op = Call string | Enter | Exit | Reset

fun td_step :: "td_op \<Rightarrow> time_dict \<times> world \<Rightarrow> (exn + unit) \<times> time_dict \<times> world" where
  "td_step (Call key) sw = (Inr (), td_call key (fst sw), snd sw)"
| "td_step Enter sw = td_enter sw"
| "td_step Exit sw = td_exit sw"
| "td_step Reset sw = (Inr (), td_reset (fst sw), snd sw)"

fun td_run :: "td_op list \<Rightarrow> time_dict \<times> world \<Rightarrow> (exn + unit) \<times> time_dict \<times> world" where
  "td_run [] sw = (Inr (), sw)"
| "td_run (x # xs) sw =
     (case td_step x sw of
        (Inl e, sw') \<Rightarrow> (Inl e, sw')
      | (Inr u, sw') \<Rightarrow> td_run xs sw')"

text \<open>An environment for evaluating concrete runs: the clock reads 0, 1, 2, ...\<close>

definition world0 :: world where
  "world0 = \<lparr>clock = of_nat, ticks = 0, maxrss = (\<lambda>n. 0), samples = 0,
             stdout = [], logged = []\<rparr>"

subsection \<open>Using a ProgressBar\<close>

text \<open>
  A user call of \<open>update\<close> is given by its five arguments. The calls of a \<open>with\<close> body
  run in order and stop at the first one that raises.
\<close>

type_synonym update_args = "real \<times> string option \<times> string option \<times> bool \<times> bool"

fun pb_updates ::
  "helpers \<Rightarrow> update_args list \<Rightarrow> progress_bar \<times> world
     \<Rightarrow> (exn + unit) \<times> progress_bar \<times> world" where
  "pb_updates H [] sw = (Inr (), sw)"
| "pb_updates H ((progress, description, message, all_completed, first_enter) # cs) sw =
     (case update H progress description message all_completed first_enter sw of
        (Inl e, sw') \<Rightarrow> (Inl e, sw')
      | (Inr u, sw') \<Rightarrow> pb_updates H cs sw')"

text \<open>
  \<open>with ProgressBar(description, message_on_done) as p: p.update(...); ...\<close>. The
  context manager's \<open>__exit__\<close> runs also when the body raised; it returns \<open>None\<close>, so
  the body's exception then propagates.
\<close>

definition pb_session ::
  "helpers \<Rightarrow> string \<Rightarrow> message_on_done option \<Rightarrow> update_args list \<Rightarrow> world
     \<Rightarrow> (exn + unit) \<times> progress_bar \<times> world" where
  "pb_session H description message_on_done cs w =
     (case pb_enter H (pb_init description message_on_done, w) of
        (Inl e, sw) \<Rightarrow> (Inl e, sw)
      | (Inr u, sw) \<Rightarrow>
          (case pb_updates H cs sw of
             (Inl e, sw1) \<Rightarrow>
               (case pb_exit H sw1 of
                  (Inl e', sw2) \<Rightarrow> (Inl e', sw2)
                | (Inr u', sw2) \<Rightarrow> (Inl e, sw2))
           | (Inr u1, sw1) \<Rightarrow> pb_exit H sw1))"

text \<open>
  Stand-ins for the collaborators, for evaluating concrete runs: \<open>colored\<close> leaves the
  text as it is and every formatter prints a fixed placeholder.
\<close>

definition helpers0 :: helpers where
  "helpers0 = \<lparr>colored = (\<lambda>s c a. s),
               get_readable_size = (\<lambda>x. ''<size>''),
               get_readable_time = (\<lambda>x. ''<time>''),
               default_logger = Logger ''default'',
               format_float = (\<lambda>spec x. ''<float>''),
               str_float = (\<lambda>x. ''<float>''),
               str_timedelta = (\<lambda>x. ''<h:mm:ss.ffffff>'')\<rparr>"

section \<open>Properties of TimeDict\<close>

lemma td_enter_step:
  assumes "key_stack s \<noteq> []"
  shows "td_enter (s, w) =
    (Inr (),
     s\<lparr>first_start_time :=
          (if first_start_time s (last (key_stack s)) = None
           then (first_start_time s)(last (key_stack s) \<mapsto> clock w (ticks w))
           else first_start_time s),
       start_time := (start_time s)(last (key_stack s) \<mapsto>
          clock w (ticks w + (if first_start_time s (last (key_stack s)) = None then 1 else 0)))\<rparr>,
     w\<lparr>ticks := Suc (ticks w + (if first_start_time s (last (key_stack s)) = None then 1 else 0))\<rparr>)"
  using assms
  by (simp add: td_enter_def perf_counter_def Let_def)

text \<open>What \<open>__exit__\<close> has done to the object before it looks at \<open>_pending_reset\<close>.\<close>

lemma td_exit_unfold:
  assumes "key_stack s \<noteq> []"
  shows "td_exit (s, w) =
    (let s' = s\<lparr>key_stack := butlast (key_stack s),
                accum_time := (accum_time s)(last (key_stack s) \<mapsto>
                   fst (dd_get (accum_time s) (last (key_stack s)))
                   + (clock w (ticks w) - fst (dd_get (start_time s) (last (key_stack s))))),
                end_time := (end_time s)(last (key_stack s) \<mapsto> clock w (ticks w)),
                start_time := snd (dd_get (start_time s) (last (key_stack s)))\<rparr>
     in (Inr (), if pending_reset s then td_reset s' else s', w\<lparr>ticks := Suc (ticks w)\<rparr>))"
  using assms
  by (simp add: td_exit_def perf_counter_def dd_get_def Let_def split: option.splits)

lemma td_exit_step:
  assumes "key_stack s \<noteq> []" "\<not> pending_reset s"
  shows "td_exit (s, w) =
    (Inr (),
     s\<lparr>key_stack := butlast (key_stack s),
       accum_time := (accum_time s)(last (key_stack s) \<mapsto>
          fst (dd_get (accum_time s) (last (key_stack s)))
          + (clock w (ticks w) - fst (dd_get (start_time s) (last (key_stack s))))),
       end_time := (end_time s)(last (key_stack s) \<mapsto> clock w (ticks w)),
       start_time := snd (dd_get (start_time s) (last (key_stack s)))\<rparr>,
     w\<lparr>ticks := Suc (ticks w)\<rparr>)"
  using assms by (simp add: td_exit_unfold Let_def)

lemma td_reset_empty: "key_stack s = [] \<Longrightarrow> td_reset s = td_init"
  by (simp add: td_reset_def td_init_def)

lemma td_reset_nonempty: "key_stack s \<noteq> [] \<Longrightarrow> td_reset s = s\<lparr>pending_reset := True\<rparr>"
  by (simp add: td_reset_def)

text \<open>Leaving the outermost scope with a reset pending clears everything.\<close>

lemma td_exit_pending_last:
  assumes "pending_reset s" "length (key_stack s) = 1"
  shows "td_exit (s, w) = (Inr (), td_init, w\<lparr>ticks := Suc (ticks w)\<rparr>)"
proof -
  from assms(2) have ne: "key_stack s \<noteq> []" and bl: "butlast (key_stack s) = []"
    by (cases "key_stack s"; simp)+
  show ?thesis
    using assms(1) bl by (simp add: td_exit_unfold [OF ne] Let_def td_reset_empty)
qed

text \<open>Leaving an inner scope with a reset pending keeps it pending and clears nothing.\<close>

lemma td_exit_pending_inner:
  assumes "pending_reset s" "2 \<le> length (key_stack s)"
  shows "td_exit (s, w) =
    (Inr (),
     s\<lparr>key_stack := butlast (key_stack s),
       accum_time := (accum_time s)(last (key_stack s) \<mapsto>
          fst (dd_get (accum_time s) (last (key_stack s)))
          + (clock w (ticks w) - fst (dd_get (start_time s) (last (key_stack s))))),
       end_time := (end_time s)(last (key_stack s) \<mapsto> clock w (ticks w)),
       start_time := snd (dd_get (start_time s) (last (key_stack s)))\<rparr>,
     w\<lparr>ticks := Suc (ticks w)\<rparr>)"
proof -
  from assms(2) have ne: "key_stack s \<noteq> []" by auto
  from assms(2) have bl: "butlast (key_stack s) \<noteq> []"
    by (cases "key_stack s" rule: rev_cases) auto
  show ?thesis
    using assms(1) bl by (simp add: td_exit_unfold [OF ne] Let_def td_reset_nonempty)
qed

lemma dom_dd_get: "dom m \<subseteq> dom (snd (dd_get m k))"
  by (auto simp: dd_get_def split: option.splits)

text \<open>
  With a reset pending, \<open>j\<close> exits that leave at least one scope open keep every entry
  of the mappings and keep the reset pending.
\<close>

lemma td_exits_pending_inner:
  assumes "pending_reset s" "j < length (key_stack s)"
  shows "\<exists>s'. td_run (replicate j Exit) (s, w) = (Inr (), s', w\<lparr>ticks := ticks w + j\<rparr>)
            \<and> pending_reset s'
            \<and> key_stack s' = take (length (key_stack s) - j) (key_stack s)
            \<and> dom (accum_time s) \<subseteq> dom (accum_time s')
            \<and> dom (start_time s) \<subseteq> dom (start_time s')
            \<and> dom (end_time s) \<subseteq> dom (end_time s')
            \<and> first_start_time s' = first_start_time s"
  using assms
proof (induction j arbitrary: s w)
  case 0
  then show ?case by simp
next
  case (Suc j)
  let ?k = "last (key_stack s)"
  let ?s1 = "s\<lparr>key_stack := butlast (key_stack s),
       accum_time := (accum_time s)(?k \<mapsto>
          fst (dd_get (accum_time s) ?k)
          + (clock w (ticks w) - fst (dd_get (start_time s) ?k))),
       end_time := (end_time s)(?k \<mapsto> clock w (ticks w)),
       start_time := snd (dd_get (start_time s) ?k)\<rparr>"
  let ?w1 = "w\<lparr>ticks := Suc (ticks w)\<rparr>"
  from Suc.prems have len: "2 \<le> length (key_stack s)" by simp
  have ex: "td_exit (s, w) = (Inr (), ?s1, ?w1)"
    by (rule td_exit_pending_inner [OF Suc.prems(1) len])
  have p1: "pending_reset ?s1" using Suc.prems(1) by simp
  have j1: "j < length (key_stack ?s1)" using Suc.prems(2) by simp
  from Suc.IH [OF p1 j1, of ?w1] obtain s' where
    run: "td_run (replicate j Exit) (?s1, ?w1) = (Inr (), s', ?w1\<lparr>ticks := ticks ?w1 + j\<rparr>)"
    and pend: "pending_reset s'"
    and stack: "key_stack s' = take (length (key_stack ?s1) - j) (key_stack ?s1)"
    and da: "dom (accum_time ?s1) \<subseteq> dom (accum_time s')"
    and ds: "dom (start_time ?s1) \<subseteq> dom (start_time s')"
    and de: "dom (end_time ?s1) \<subseteq> dom (end_time s')"
    and fs: "first_start_time s' = first_start_time ?s1"
    by blast
  have "td_run (replicate (Suc j) Exit) (s, w) = (Inr (), s', w\<lparr>ticks := ticks w + Suc j\<rparr>)"
    using ex run by simp
  moreover have "key_stack s' = take (length (key_stack s) - Suc j) (key_stack s)"
    using stack Suc.prems(2) by (simp add: butlast_conv_take min_def)
  moreover have "dom (accum_time s) \<subseteq> dom (accum_time s')" using da by auto
  moreover have "dom (start_time s) \<subseteq> dom (start_time s')"
    using ds dom_dd_get [of "start_time s" ?k] by auto
  moreover have "dom (end_time s) \<subseteq> dom (end_time s')" using de by auto
  moreover have "first_start_time s' = first_start_time s" using fs by simp
  ultimately show ?case using pend by blast
qed

text \<open>With a reset pending, leaving all open scopes ends in the cleared state.\<close>

lemma td_exits_pending_all:
  assumes "pending_reset s" "length (key_stack s) = Suc n"
  shows "td_run (replicate (Suc n) Exit) (s, w) = (Inr (), td_init, w\<lparr>ticks := ticks w + Suc n\<rparr>)"
  using assms
proof (induction n arbitrary: s w)
  case 0
  then show ?case by (simp add: td_exit_pending_last)
next
  case (Suc n)
  let ?k = "last (key_stack s)"
  let ?s1 = "s\<lparr>key_stack := butlast (key_stack s),
       accum_time := (accum_time s)(?k \<mapsto>
          fst (dd_get (accum_time s) ?k)
          + (clock w (ticks w) - fst (dd_get (start_time s) ?k))),
       end_time := (end_time s)(?k \<mapsto> clock w (ticks w)),
       start_time := snd (dd_get (start_time s) ?k)\<rparr>"
  let ?w1 = "w\<lparr>ticks := Suc (ticks w)\<rparr>"
  from Suc.prems have len: "2 \<le> length (key_stack s)" by simp
  have ex: "td_exit (s, w) = (Inr (), ?s1, ?w1)"
    by (rule td_exit_pending_inner [OF Suc.prems(1) len])
  have p1: "pending_reset ?s1" using Suc.prems(1) by simp
  have l1: "length (key_stack ?s1) = Suc n" using Suc.prems(2) by simp
  from Suc.IH [OF p1 l1, of ?w1]
  have "td_run (replicate (Suc n) Exit) (?s1, ?w1)
          = (Inr (), td_init, ?w1\<lparr>ticks := ticks ?w1 + Suc n\<rparr>)" .
  then show ?case using ex by simp
qed

text \<open>
  C1 (as amended). Leaving a scope without a pending reset pops the top key, records
  \<open>end_time[key]\<close> and adds \<open>end_time[key] - start_time[key]\<close> to \<open>accum_time[key]\<close>.
  For two nested scopes on one key both exits add to the single \<open>accum_time\<close> entry,
  nothing is overwritten there; but the inner entry overwrites \<open>start_time[key]\<close>, so
  the entry grows by (inner exit - inner entry) + (outer exit - inner entry): the outer
  scope counts only from the inner entry on. Below, \<open>clock w n\<close> is the outer entry,
  \<open>clock w (n + 1)\<close> the inner entry, \<open>clock w (n + 2)\<close> and \<open>clock w (n + 3)\<close> the two
  exits.
\<close>

theorem td_nested_same_key:
  assumes "\<not> pending_reset s"
  shows "(key_stack s \<noteq> [] \<longrightarrow>
           (\<exists>s'. td_exit (s, w) = (Inr (), s', w\<lparr>ticks := Suc (ticks w)\<rparr>)
              \<and> key_stack s' = butlast (key_stack s)
              \<and> end_time s' (last (key_stack s)) = Some (clock w (ticks w))
              \<and> accum_time s' (last (key_stack s)) =
                  Some (fst (dd_get (accum_time s) (last (key_stack s)))
                        + (clock w (ticks w)
                           - fst (dd_get (start_time s) (last (key_stack s)))))))
       \<and> (let n = ticks w + (if first_start_time s k = None then 1 else 0)
          in \<exists>s'. td_run [Call k, Enter, Call k, Enter, Exit, Exit] (s, w)
                     = (Inr (), s', w\<lparr>ticks := n + 4\<rparr>)
               \<and> key_stack s' = key_stack s
               \<and> start_time s' k = Some (clock w (n + 1))
               \<and> end_time s' k = Some (clock w (n + 3))
               \<and> accum_time s' k =
                   Some (fst (dd_get (accum_time s) k)
                         + (clock w (n + 2) - clock w (n + 1))
                         + (clock w (n + 3) - clock w (n + 1))))"
proof (intro conjI impI)
  assume ne: "key_stack s \<noteq> []"
  show "\<exists>s'. td_exit (s, w) = (Inr (), s', w\<lparr>ticks := Suc (ticks w)\<rparr>)
              \<and> key_stack s' = butlast (key_stack s)
              \<and> end_time s' (last (key_stack s)) = Some (clock w (ticks w))
              \<and> accum_time s' (last (key_stack s)) =
                  Some (fst (dd_get (accum_time s) (last (key_stack s)))
                        + (clock w (ticks w)
                           - fst (dd_get (start_time s) (last (key_stack s)))))"
    by (simp add: td_exit_step [OF ne assms] dd_get_def split: option.splits)
next
  show "let n = ticks w + (if first_start_time s k = None then 1 else 0)
          in \<exists>s'. td_run [Call k, Enter, Call k, Enter, Exit, Exit] (s, w)
                     = (Inr (), s', w\<lparr>ticks := n + 4\<rparr>)
               \<and> key_stack s' = key_stack s
               \<and> start_time s' k = Some (clock w (n + 1))
               \<and> end_time s' k = Some (clock w (n + 3))
               \<and> accum_time s' k =
                   Some (fst (dd_get (accum_time s) k)
                         + (clock w (n + 2) - clock w (n + 1))
                         + (clock w (n + 3) - clock w (n + 1)))"
    using assms
    by (simp add: td_call_def td_enter_step td_exit_step dd_get_def Let_def
             butlast_append eval_nat_numeral split: option.splits)
qed

theorem td_nested_same_key_witness:
  "\<not> pending_reset (td_call ''j'' td_init)
   \<and> key_stack (td_call ''j'' td_init) \<noteq> []
   \<and> accum_time (fst (snd (td_exit (td_call ''j'' td_init, world0\<lparr>ticks := 2\<rparr>)))) ''j''
       = Some 2
   \<and> accum_time (fst (snd (td_run [Call ''k'', Enter, Call ''k'', Enter, Exit, Exit]
                               (td_call ''j'' td_init, world0\<lparr>ticks := 2\<rparr>)))) ''k''
       = Some 3"
  using td_nested_same_key [of "td_call ''j'' td_init" "world0\<lparr>ticks := 2\<rparr>" "''k''"]
  by (auto simp: td_call_def td_init_def world0_def dd_get_def Let_def)

text \<open>
  C1 as stated fails. On a fresh TimeDict with the clock reading 0, 1, 2, ... the outer
  scope on \<open>k\<close> is entered at 1 and left at 4, the inner one entered at 2 and left at 3:
  the two durations are 3 and 1, yet \<open>accum_time[k]\<close> ends as 3, not as their sum 4.
\<close>

theorem td_nested_same_key_counterexample:
  "start_time (fst (snd (td_run [Call ''k'', Enter] (td_init, world0)))) ''k'' = Some 1
   \<and> start_time (fst (snd (td_run [Call ''k'', Enter, Call ''k'', Enter]
                               (td_init, world0)))) ''k'' = Some 2
   \<and> end_time (fst (snd (td_run [Call ''k'', Enter, Call ''k'', Enter, Exit]
                             (td_init, world0)))) ''k'' = Some 3
   \<and> end_time (fst (snd (td_run [Call ''k'', Enter, Call ''k'', Enter, Exit, Exit]
                             (td_init, world0)))) ''k'' = Some 4
   \<and> accum_time (fst (snd (td_run [Call ''k'', Enter, Call ''k'', Enter, Exit, Exit]
                               (td_init, world0)))) ''k'' = Some 3
   \<and> (3::real) \<noteq> (4 - 1) + (3 - 2)"
  by (simp add: td_call_def td_enter_step td_exit_step td_init_def world0_def dd_get_def
           butlast_append)

text \<open>
  C2. \<open>reset()\<close> with a non-empty key stack changes nothing but the pending flag, and
  with an empty stack it clears the four mappings, the stack and the flag at once.
  While a reset is pending, exits that leave a scope open clear nothing (every entry of
  the mappings is still there, the flag stays set), and the exit of the outermost open
  scope yields the cleared object. No call drops a pending reset: after any call the
  flag is still set with a scope open, unless the call was the outermost exit, which
  performs the reset.
\<close>

theorem td_reset_is_deferred:
  "(key_stack s \<noteq> [] \<longrightarrow> td_reset s = s\<lparr>pending_reset := True\<rparr>)
   \<and> (key_stack s = [] \<longrightarrow> td_reset s = td_init)
   \<and> (pending_reset s \<and> j < length (key_stack s) \<longrightarrow>
        (\<exists>s'. td_run (replicate j Exit) (s, w) = (Inr (), s', w\<lparr>ticks := ticks w + j\<rparr>)
            \<and> pending_reset s'
            \<and> key_stack s' = take (length (key_stack s) - j) (key_stack s)
            \<and> dom (accum_time s) \<subseteq> dom (accum_time s')
            \<and> dom (start_time s) \<subseteq> dom (start_time s')
            \<and> dom (end_time s) \<subseteq> dom (end_time s')
            \<and> first_start_time s' = first_start_time s))
   \<and> (pending_reset s \<and> key_stack s \<noteq> [] \<longrightarrow>
        td_run (replicate (length (key_stack s)) Exit) (s, w)
          = (Inr (), td_init, w\<lparr>ticks := ticks w + length (key_stack s)\<rparr>))
   \<and> (pending_reset s \<and> key_stack s \<noteq> [] \<longrightarrow>
        (if x = Exit \<and> length (key_stack s) = 1
         then fst (snd (td_step x (s, w))) = td_init
         else pending_reset (fst (snd (td_step x (s, w))))
              \<and> key_stack (fst (snd (td_step x (s, w)))) \<noteq> []))"
proof (intro conjI impI)
  show "key_stack s \<noteq> [] \<Longrightarrow> td_reset s = s\<lparr>pending_reset := True\<rparr>"
    by (rule td_reset_nonempty)
  show "key_stack s = [] \<Longrightarrow> td_reset s = td_init"
    by (rule td_reset_empty)
next
  assume "pending_reset s \<and> j < length (key_stack s)"
  then show "\<exists>s'. td_run (replicate j Exit) (s, w) = (Inr (), s', w\<lparr>ticks := ticks w + j\<rparr>)
            \<and> pending_reset s'
            \<and> key_stack s' = take (length (key_stack s) - j) (key_stack s)
            \<and> dom (accum_time s) \<subseteq> dom (accum_time s')
            \<and> dom (start_time s) \<subseteq> dom (start_time s')
            \<and> dom (end_time s) \<subseteq> dom (end_time s')
            \<and> first_start_time s' = first_start_time s"
    using td_exits_pending_inner [of s j w] by blast
next
  assume a: "pending_reset s \<and> key_stack s \<noteq> []"
  then obtain n where n: "length (key_stack s) = Suc n"
    by (cases "key_stack s") auto
  with a show "td_run (replicate (length (key_stack s)) Exit) (s, w)
          = (Inr (), td_init, w\<lparr>ticks := ticks w + length (key_stack s)\<rparr>)"
    using td_exits_pending_all [of s n w] by simp
next
  assume a: "pending_reset s \<and> key_stack s \<noteq> []"
  show "if x = Exit \<and> length (key_stack s) = 1
         then fst (snd (td_step x (s, w))) = td_init
         else pending_reset (fst (snd (td_step x (s, w))))
              \<and> key_stack (fst (snd (td_step x (s, w)))) \<noteq> []"
  proof (cases x)
    case (Call key)
    with a show ?thesis by (simp add: td_call_def)
  next
    case Enter
    with a show ?thesis by (simp add: td_enter_step)
  next
    case Exit
    show ?thesis
    proof (cases "length (key_stack s) = 1")
      case True
      with a Exit show ?thesis by (simp add: td_exit_pending_last)
    next
      case False
      with a have len: "2 \<le> length (key_stack s)"
        by (cases "key_stack s"; cases "tl (key_stack s)") auto
      then have "butlast (key_stack s) \<noteq> []"
        by (cases "key_stack s" rule: rev_cases) auto
      with a Exit False len show ?thesis by (simp add: td_exit_pending_inner)
    qed
  next
    case Reset
    with a show ?thesis by (simp add: td_reset_nonempty)
  qed
qed

theorem td_reset_is_deferred_witness:
  "key_stack (td_call ''b'' (td_call ''a'' td_init)) \<noteq> []
   \<and> td_reset (td_call ''b'' (td_call ''a'' td_init))
       = (td_call ''b'' (td_call ''a'' td_init))\<lparr>pending_reset := True\<rparr>
   \<and> key_stack td_init = [] \<and> td_reset td_init = td_init
   \<and> pending_reset (td_reset (td_call ''b'' (td_call ''a'' td_init)))
   \<and> (1::nat) < length (key_stack (td_reset (td_call ''b'' (td_call ''a'' td_init))))
   \<and> key_stack (fst (snd (td_run (replicate 1 Exit)
         (td_reset (td_call ''b'' (td_call ''a'' td_init)), world0)))) = [''a'']
   \<and> pending_reset (fst (snd (td_run (replicate 1 Exit)
         (td_reset (td_call ''b'' (td_call ''a'' td_init)), world0))))
   \<and> accum_time (fst (snd (td_run (replicate 1 Exit)
         (td_reset (td_call ''b'' (td_call ''a'' td_init)), world0)))) ''b'' = Some 0
   \<and> td_run (replicate 2 Exit) (td_reset (td_call ''b'' (td_call ''a'' td_init)), world0)
       = (Inr (), td_init, world0\<lparr>ticks := 2\<rparr>)
   \<and> pending_reset (fst (snd (td_step Enter
         (td_reset (td_call ''b'' (td_call ''a'' td_init)), world0))))"
  using td_reset_is_deferred [of "td_call ''b'' (td_call ''a'' td_init)" 1 world0 Enter]
        td_reset_is_deferred [of td_init 1 world0 Enter]
        td_reset_is_deferred [of "td_reset (td_call ''b'' (td_call ''a'' td_init))" 1 world0 Enter]
        td_reset_is_deferred [of "td_reset (td_call ''b'' (td_call ''a'' td_init))" 2 world0 Exit]
  by (auto simp: td_call_def td_init_def td_reset_def world0_def td_exit_unfold dd_get_def
        td_enter_step Let_def eval_nat_numeral)

text \<open>
  C6 (as amended). Leaving a scope with an empty key stack fails with Python's
  \<open>IndexError\<close>, raised by \<open>list.pop\<close> before anything is read or changed; this is the
  only way \<open>__exit__\<close> fails.
\<close>

theorem td_exit_empty_stack:
  "(key_stack s = [] \<longrightarrow> td_exit (s, w) = (Inl IndexError, s, w))
   \<and> (fst (td_exit (s, w)) = Inl e \<longleftrightarrow> key_stack s = [] \<and> e = IndexError)"
proof (cases "key_stack s = []")
  case True
  then show ?thesis by (auto simp: td_exit_def)
next
  case False
  then show ?thesis by (simp add: td_exit_unfold Let_def)
qed

theorem td_exit_empty_stack_witness:
  "key_stack td_init = []
   \<and> td_exit (td_init, world0) = (Inl IndexError, td_init, world0)
   \<and> fst (td_exit (td_init, world0)) = Inl IndexError"
  using td_exit_empty_stack [of td_init world0 IndexError]
  by (simp add: td_init_def)

text \<open>
  C6 as stated fails: the exception raised on a fresh TimeDict is \<open>IndexError\<close>, and no
  exception named StateError.
\<close>

theorem td_exit_empty_stack_counterexample:
  "td_exit (td_init, world0) = (Inl IndexError, td_init, world0)
   \<and> IndexError \<noteq> Exception ''StateError''"
  by (simp add: td_exit_def td_init_def)

section \<open>Properties of the profiling decorator and of TimeContext\<close>

text \<open>
  C7. The wrapper samples the clock and the memory counter and then calls the wrapped
  callable. When that raises, the wrapper returns the same exception with the world as
  the callable left it: nothing is logged. When it returns \<open>r\<close>, the wrapper samples
  again, hands exactly one record to the default logger and returns \<open>r\<close>.
\<close>

theorem arg_wrapper_propagates:
  "(func (w\<lparr>ticks := Suc (ticks w), samples := Suc (samples w)\<rparr>) = (Inl e, w3) \<longrightarrow>
      arg_wrapper H qualname func w = (Inl e, w3))
   \<and> (func (w\<lparr>ticks := Suc (ticks w), samples := Suc (samples w)\<rparr>) = (Inr r, w3) \<longrightarrow>
      arg_wrapper H qualname func w =
        (Inr r,
         w3\<lparr>ticks := Suc (ticks w3), samples := Suc (samples w3),
            logged := logged w3 @
              [(default_logger H,
                '' '' @ qualname @ '' time: ''
                  @ str_float H (clock w3 (ticks w3) - clock w (ticks w)) @ ''s ''
                  @ ''memory '' @ [CHR 0xCE, CHR 0x94] @ '' ''
                  @ get_readable_size H
                      (real_of_int (maxrss w3 (samples w3)) - real_of_int (maxrss w (samples w)))
                  @ '' '' @ get_readable_size H (real_of_int (maxrss w (samples w)))
                  @ '' -> '' @ get_readable_size H (real_of_int (maxrss w3 (samples w3))))]\<rparr>))"
  by (simp add: arg_wrapper_def perf_counter_def used_memory_def logger_info_def Let_def)

theorem arg_wrapper_propagates_witness:
  "arg_wrapper helpers0 ''foo''
      (\<lambda>w. (Inl (Exception ''ValueError'') :: exn + int, stdout_write ''1'' w)) world0
     = (Inl (Exception ''ValueError''),
        world0\<lparr>ticks := 1, samples := 1, stdout := [Write ''1'']\<rparr>)
   \<and> arg_wrapper helpers0 ''foo'' (\<lambda>w. (Inr (7::int), stdout_write ''1'' w)) world0
     = (Inr 7,
        world0\<lparr>ticks := 2, samples := 2, stdout := [Write ''1''],
               logged := [(Logger ''default'',
                 '' foo time: <float>s memory '' @ [CHR 0xCE, CHR 0x94]
                   @ '' <size> <size> -> <size>'')]\<rparr>)"
  using arg_wrapper_propagates
          [of "\<lambda>w. (Inl (Exception ''ValueError'') :: exn + int, stdout_write ''1'' w)" world0
              "Exception ''ValueError''"
              "world0\<lparr>ticks := 1, samples := 1, stdout := [Write ''1'']\<rparr>" helpers0 "''foo''" 0]
        arg_wrapper_propagates
          [of "\<lambda>w. (Inr (7::int), stdout_write ''1'' w)" world0 "Exception ''ValueError''"
              "world0\<lparr>ticks := 1, samples := 1, stdout := [Write ''1'']\<rparr>" helpers0 "''foo''" 7]
  by (simp add: world0_def helpers0_def stdout_write_def)

text \<open>
  C8 (as amended). \<open>__enter__\<close> stores one reading of the monotonic clock as \<open>start\<close>.
  Without a logger it writes the task name and then the end string, a blank, three
  dots and a tab, with no newline, and flushes; with a logger it logs the task name
  followed by three dots and writes nothing.
\<close>

theorem tc_enter_message:
  "(tc_logger self = None \<longrightarrow>
      tc_enter (self, w) =
        (self\<lparr>start := Some (clock w (ticks w))\<rparr>,
         w\<lparr>ticks := Suc (ticks w),
           stdout := stdout w @ [Write (task_name self), Write ('' ...'' @ [CHR 0x09]), Flush]\<rparr>))
   \<and> (tc_logger self = Some lg \<longrightarrow>
      tc_enter (self, w) =
        (self\<lparr>start := Some (clock w (ticks w))\<rparr>,
         w\<lparr>ticks := Suc (ticks w),
           logged := logged w @ [(lg, task_name self @ ''...'')]\<rparr>))"
  by (simp add: tc_enter_def tc_enter_msg_def perf_counter_def print_end_flush_def
        stdout_write_def stdout_flush_def logger_info_def)

theorem tc_enter_message_witness:
  "tc_logger (tc_init ''loop'' None) = None
   \<and> stdout (snd (tc_enter (tc_init ''loop'' None, world0)))
       = [Write ''loop'', Write ('' ...'' @ [CHR 0x09]), Flush]
   \<and> start (fst (tc_enter (tc_init ''loop'' None, world0))) = Some 0
   \<and> tc_logger (tc_init ''loop'' (Some (Logger ''jina''))) = Some (Logger ''jina'')
   \<and> logged (snd (tc_enter (tc_init ''loop'' (Some (Logger ''jina'')), world0)))
       = [(Logger ''jina'', ''loop...'')]
   \<and> stdout (snd (tc_enter (tc_init ''loop'' (Some (Logger ''jina'')), world0))) = []"
  using tc_enter_message [of "tc_init ''loop'' None" world0 "Logger ''jina''"]
        tc_enter_message [of "tc_init ''loop'' (Some (Logger ''jina''))" world0 "Logger ''jina''"]
  by (simp add: tc_init_def world0_def)

text \<open>
  C8 as stated fails: for the task name \<open>loop\<close> and no logger the text written is
  \<open>loop\<close>, blank, three dots, tab; the blank is not in the text the claim gives.
\<close>

theorem tc_enter_message_counterexample:
  "stdout (snd (tc_enter (tc_init ''loop'' None, world0)))
     = [Write ''loop'', Write ('' ...'' @ [CHR 0x09]), Flush]
   \<and> ''loop'' @ '' ...'' @ [CHR 0x09] \<noteq> ''loop'' @ ''...'' @ [CHR 0x09]"
  by (simp add: tc_enter_def tc_enter_msg_def perf_counter_def print_end_flush_def
        stdout_write_def stdout_flush_def tc_init_def world0_def)

section \<open>Properties of ProgressBar\<close>

text \<open>The two paths of \<open>update\<close>: the throttled return and the render.\<close>

lemma update_skip:
  assumes "\<bar>completed_progress self + progress - last_rendered_progress self\<bar> < 0.5"
    and "\<not> all_completed"
  shows "update H progress description message all_completed first_enter (self, w) =
    (Inr (),
     self\<lparr>completed_progress := completed_progress self + progress,
          num_update_called := num_update_called self + (if first_enter then 0 else 1)\<rparr>,
     w)"
  using assms by (simp add: update_def Let_def)

lemma update_render:
  assumes "\<not> (\<bar>completed_progress self + progress - last_rendered_progress self\<bar> < 0.5
              \<and> \<not> all_completed)"
    and "start self = Some s"
  shows "update H progress description message all_completed first_enter (self, w) =
    (if \<not> first_enter \<and> clock w (ticks w) - s = 0
     then (Inl ZeroDivisionError,
           self\<lparr>completed_progress := completed_progress self + progress,
                last_rendered_progress := completed_progress self + progress,
                num_update_called := num_update_called self + (if first_enter then 0 else 1)\<rparr>,
           w\<lparr>ticks := Suc (ticks w), stdout := stdout w @ [Write clear_line]\<rparr>)
     else (Inr (),
           self\<lparr>completed_progress := completed_progress self + progress,
                last_rendered_progress := completed_progress self + progress,
                num_update_called := num_update_called self + (if first_enter then 0 else 1)\<rparr>,
           w\<lparr>ticks := Suc (ticks w),
             stdout := stdout w @
               [Write clear_line,
                Write (bar_line H (str_or description (str_or (Some (task_name self)) []))
                         (completed_progress self + progress) all_completed
                         (if first_enter then ''-:--:--''
                          else takeWhile (\<lambda>c. c \<noteq> CHR ''.'')
                                 (str_timedelta H (clock w (ticks w) - s)))
                         (if first_enter then ''estimating...''
                          else format_float H ''3.1f''
                                 (of_int (num_update_called self + 1) / (clock w (ticks w) - s))
                               @ '' step/s'')
                         (str_or message [])),
                Flush]\<rparr>))"
  using assms
  by (cases all_completed)
     (simp_all add: update_def Let_def perf_counter_def stdout_write_def stdout_flush_def)

lemma update_render_unset:
  assumes "\<not> (\<bar>completed_progress self + progress - last_rendered_progress self\<bar> < 0.5
              \<and> \<not> all_completed)"
    and "start self = None"
  shows "update H progress description message all_completed first_enter (self, w) =
    (Inl AttributeError,
     self\<lparr>completed_progress := completed_progress self + progress,
          last_rendered_progress := completed_progress self + progress,
          num_update_called := num_update_called self + (if first_enter then 0 else 1)\<rparr>,
     w\<lparr>ticks := Suc (ticks w), stdout := stdout w @ [Write clear_line]\<rparr>)"
  using assms
  by (cases all_completed)
     (simp_all add: update_def Let_def perf_counter_def stdout_write_def)

text \<open>
  C3. When the progress counter, after adding \<open>progress\<close>, is less than 0.5 away from
  the last rendered value and \<open>all_completed\<close> is false, \<open>update\<close> only updates its two
  counters: nothing is written and the clock is not read. With \<open>all_completed\<close> true
  the call is never skipped, whatever the distance: it records the rendered value and
  writes the line-clear, and it writes and flushes the bar line whenever the rate
  label can be computed (on first entry, or with a non-zero elapsed time).
\<close>

theorem update_throttle:
  "(\<bar>completed_progress self + progress - last_rendered_progress self\<bar> < 0.5
      \<and> \<not> all_completed \<longrightarrow>
      update H progress description message all_completed first_enter (self, w) =
        (Inr (),
         self\<lparr>completed_progress := completed_progress self + progress,
              num_update_called := num_update_called self + (if first_enter then 0 else 1)\<rparr>,
         w))
   \<and> (\<exists>r self' w' rest.
         update H progress description message True first_enter (self, w) = (r, self', w')
         \<and> last_rendered_progress self' = completed_progress self + progress
         \<and> stdout w' = stdout w @ Write clear_line # rest)
   \<and> (start self = Some s \<and> (first_enter \<or> clock w (ticks w) \<noteq> s) \<longrightarrow>
        (\<exists>self' w' line.
           update H progress description message True first_enter (self, w) = (Inr (), self', w')
           \<and> last_rendered_progress self' = completed_progress self + progress
           \<and> stdout w' = stdout w @ [Write clear_line, Write line, Flush]))"
proof (intro conjI impI)
  assume "\<bar>completed_progress self + progress - last_rendered_progress self\<bar> < 0.5
            \<and> \<not> all_completed"
  then show "update H progress description message all_completed first_enter (self, w) =
        (Inr (),
         self\<lparr>completed_progress := completed_progress self + progress,
              num_update_called := num_update_called self + (if first_enter then 0 else 1)\<rparr>,
         w)"
    by (simp add: update_skip)
next
  have r: "\<not> (\<bar>completed_progress self + progress - last_rendered_progress self\<bar> < 0.5
              \<and> \<not> True)"
    by simp
  show "\<exists>r self' w' rest.
         update H progress description message True first_enter (self, w) = (r, self', w')
         \<and> last_rendered_progress self' = completed_progress self + progress
         \<and> stdout w' = stdout w @ Write clear_line # rest"
  proof (cases "start self")
    case None
    show ?thesis by (simp add: update_render_unset [OF r None])
  next
    case (Some s')
    show ?thesis by (simp add: update_render [OF r Some])
  qed
next
  have r: "\<not> (\<bar>completed_progress self + progress - last_rendered_progress self\<bar> < 0.5
              \<and> \<not> True)"
    by simp
  assume "start self = Some s \<and> (first_enter \<or> clock w (ticks w) \<noteq> s)"
  then have st: "start self = Some s" and ok: "first_enter \<or> clock w (ticks w) \<noteq> s"
    by simp_all
  from ok show "\<exists>self' w' line.
           update H progress description message True first_enter (self, w) = (Inr (), self', w')
           \<and> last_rendered_progress self' = completed_progress self + progress
           \<and> stdout w' = stdout w @ [Write clear_line, Write line, Flush]"
    by (auto simp: update_render [OF r st])
qed

text \<open>
  C10. In a rendering call with \<open>first_enter\<close> false the rate label divides the call
  counter by the elapsed time without a guard: the call raises \<open>ZeroDivisionError\<close>
  exactly when the elapsed time is zero, after the line-clear was written and before
  the bar line. With a clock that has not gone back since entry the call therefore
  returns exactly when the elapsed time is strictly positive, and the label is then the
  formatted quotient.
\<close>

theorem update_rate_division:
  assumes "\<not> (\<bar>completed_progress self + progress - last_rendered_progress self\<bar> < 0.5
              \<and> \<not> all_completed)"
    and "start self = Some s"
  shows "(fst (update H progress description message all_completed False (self, w))
            = Inl ZeroDivisionError \<longleftrightarrow> clock w (ticks w) - s = 0)
       \<and> (clock w (ticks w) - s = 0 \<longrightarrow>
            stdout (snd (snd (update H progress description message all_completed False (self, w))))
              = stdout w @ [Write clear_line])
       \<and> (s \<le> clock w (ticks w) \<longrightarrow>
            (fst (update H progress description message all_completed False (self, w)) = Inr ()
               \<longleftrightarrow> 0 < clock w (ticks w) - s))
       \<and> (clock w (ticks w) - s \<noteq> 0 \<longrightarrow>
            stdout (snd (snd (update H progress description message all_completed False (self, w))))
              = stdout w @
                 [Write clear_line,
                  Write (bar_line H (str_or description (str_or (Some (task_name self)) []))
                           (completed_progress self + progress) all_completed
                           (takeWhile (\<lambda>c. c \<noteq> CHR ''.'')
                              (str_timedelta H (clock w (ticks w) - s)))
                           (format_float H ''3.1f''
                              (of_int (num_update_called self + 1) / (clock w (ticks w) - s))
                            @ '' step/s'')
                           (str_or message [])),
                  Flush])"
  by (auto simp: update_render [OF assms])

theorem update_throttle_witness:
  "\<bar>completed_progress ((pb_init ''job'' None)\<lparr>start := Some 0, completed_progress := 1,
        last_rendered_progress := 1\<rparr>) + 0.1
      - last_rendered_progress ((pb_init ''job'' None)\<lparr>start := Some 0,
          completed_progress := 1, last_rendered_progress := 1\<rparr>)\<bar> < 0.5
   \<and> update helpers0 0.1 None None False False
        ((pb_init ''job'' None)\<lparr>start := Some 0, completed_progress := 1,
            last_rendered_progress := 1\<rparr>, world0\<lparr>ticks := 2\<rparr>)
       = (Inr (),
          (pb_init ''job'' None)\<lparr>start := Some 0, completed_progress := 11 / 10,
            last_rendered_progress := 1, num_update_called := 1\<rparr>,
          world0\<lparr>ticks := 2\<rparr>)
   \<and> clock (world0\<lparr>ticks := 2\<rparr>) (ticks (world0\<lparr>ticks := 2\<rparr>)) \<noteq> 0
   \<and> fst (update helpers0 0.1 None None True False
        ((pb_init ''job'' None)\<lparr>start := Some 0, completed_progress := 1,
            last_rendered_progress := 1\<rparr>, world0\<lparr>ticks := 2\<rparr>)) = Inr ()
   \<and> length (stdout (snd (snd (update helpers0 0.1 None None True False
        ((pb_init ''job'' None)\<lparr>start := Some 0, completed_progress := 1,
            last_rendered_progress := 1\<rparr>, world0\<lparr>ticks := 2\<rparr>))))) = 3"
  using update_throttle
          [where self = "(pb_init ''job'' None)\<lparr>start := Some 0, completed_progress := 1,
                            last_rendered_progress := 1\<rparr>"
             and progress = "0.1" and all_completed = False and H = helpers0
             and description = None and message = None and first_enter = False
             and w = "world0\<lparr>ticks := 2\<rparr>" and s = 0]
  by (auto simp: pb_init_def world0_def)

theorem update_rate_division_witness:
  "\<not> (\<bar>completed_progress ((pb_init ''job'' None)\<lparr>start := Some 0, completed_progress := 1,
           last_rendered_progress := 1\<rparr>) + 1
         - last_rendered_progress ((pb_init ''job'' None)\<lparr>start := Some 0,
             completed_progress := 1, last_rendered_progress := 1\<rparr>)\<bar> < 0.5 \<and> \<not> False)
   \<and> start ((pb_init ''job'' None)\<lparr>start := Some 0, completed_progress := 1,
          last_rendered_progress := 1\<rparr>) = Some 0
   \<and> clock world0 (ticks world0) - 0 = 0
   \<and> fst (update helpers0 1 None None False False
        ((pb_init ''job'' None)\<lparr>start := Some 0, completed_progress := 1,
            last_rendered_progress := 1\<rparr>, world0)) = Inl ZeroDivisionError
   \<and> stdout (snd (snd (update helpers0 1 None None False False
        ((pb_init ''job'' None)\<lparr>start := Some 0, completed_progress := 1,
            last_rendered_progress := 1\<rparr>, world0)))) = [Write clear_line]
   \<and> 0 < clock (world0\<lparr>ticks := 2\<rparr>) (ticks (world0\<lparr>ticks := 2\<rparr>)) - 0
   \<and> fst (update helpers0 1 None None False False
        ((pb_init ''job'' None)\<lparr>start := Some 0, completed_progress := 1,
            last_rendered_progress := 1\<rparr>, world0\<lparr>ticks := 2\<rparr>)) = Inr ()"
  using update_rate_division
          [where self = "(pb_init ''job'' None)\<lparr>start := Some 0, completed_progress := 1,
                            last_rendered_progress := 1\<rparr>"
             and progress = 1 and all_completed = False and H = helpers0
             and description = None and message = None and w = world0 and s = 0]
        update_rate_division
          [where self = "(pb_init ''job'' None)\<lparr>start := Some 0, completed_progress := 1,
                            last_rendered_progress := 1\<rparr>"
             and progress = 1 and all_completed = False and H = helpers0
             and description = None and message = None
             and w = "world0\<lparr>ticks := 2\<rparr>" and s = 0]
  by (auto simp: pb_init_def world0_def)

text \<open>The remainder of Python's \<open>%\<close> by a positive number lies between zero and it.\<close>

lemma py_mod_range:
  assumes "0 < y"
  shows "0 \<le> py_mod x y" and "py_mod x y < y"
proof -
  have "of_int \<lfloor>x / y\<rfloor> * y \<le> x"
    unfolding pos_le_divide_eq [OF assms, symmetric] by (rule of_int_floor_le)
  then show "0 \<le> py_mod x y" by (simp add: py_mod_def mult.commute)
  have "x < (of_int \<lfloor>x / y\<rfloor> + 1) * y"
    unfolding pos_divide_less_eq [OF assms, symmetric] by linarith
  then show "py_mod x y < y" by (simp add: py_mod_def algebra_simps)
qed

lemma py_mod_multiple: "y \<noteq> 0 \<Longrightarrow> py_mod (y * of_int k) y = 0"
  by (simp add: py_mod_def)

lemma num_bars_range: "1 \<le> num_bars cp" "num_bars cp \<le> 40"
  using py_mod_range [of 40 cp]
  by (auto simp: num_bars_def bars_on_row_def Let_def)

text \<open>
  C5 (as amended). The remainder of the progress counter by 40 lies in [0, 40).
  \<open>num_bars\<close> is that remainder when it is at least 1; it is 40 when the remainder is
  zero and the counter is not (so at every non-zero multiple of 40); and it is 1 for
  every other remainder below 1, the positive ones included, and for a counter of
  zero. The filled count is the floor of \<open>num_bars\<close>, between 1 and 40, and the
  half-bar count is 1 exactly when \<open>num_bars\<close> exceeds its floor by at most 0.5, else
  0. The half-bar glyph itself is part of every rendered line: the count only selects
  between two colours that are equal.
\<close>

theorem num_bars_cases:
  "0 \<le> py_mod cp (of_int bars_on_row) \<and> py_mod cp (of_int bars_on_row) < 40
   \<and> (1 \<le> py_mod cp (of_int bars_on_row) \<longrightarrow> num_bars cp = py_mod cp (of_int bars_on_row))
   \<and> (py_mod cp (of_int bars_on_row) = 0 \<and> cp \<noteq> 0 \<longrightarrow> num_bars cp = 40)
   \<and> (k \<noteq> 0 \<longrightarrow> num_bars (40 * of_int k) = 40)
   \<and> (0 < py_mod cp (of_int bars_on_row) \<and> py_mod cp (of_int bars_on_row) < 1
        \<longrightarrow> num_bars cp = 1)
   \<and> (cp = 0 \<longrightarrow> num_bars cp = 1)
   \<and> num_fullbars cp = \<lfloor>num_bars cp\<rfloor> \<and> 1 \<le> num_fullbars cp \<and> num_fullbars cp \<le> 40
   \<and> (num_halfbars cp = 1 \<longleftrightarrow> num_bars cp - of_int \<lfloor>num_bars cp\<rfloor> \<le> 0.5)
   \<and> (num_halfbars cp = 0 \<longleftrightarrow> \<not> num_bars cp - of_int \<lfloor>num_bars cp\<rfloor> \<le> 0.5)
   \<and> bar_line H description_str cp all_completed time_str speed_str msg_str =
       rjust10 description_str @ '' ''
       @ colored H (str_mul heavy_bar (num_fullbars cp))
           (Some (if all_completed then ''yellow'' else ''green'')) []
       @ colored H half_bar (Some (if all_completed then ''yellow'' else ''green'')) []
       @ colored H (str_mul heavy_bar (40 - num_fullbars cp))
           (Some (if all_completed then ''yellow'' else ''green'')) [''dark'']
       @ '' '' @ colored H time_str (Some ''cyan'') []
       @ '' '' @ speed_str @ '' '' @ msg_str"
proof -
  have r0: "0 \<le> py_mod cp (of_int bars_on_row)" and r1: "py_mod cp (of_int bars_on_row) < 40"
    using py_mod_range [of 40 cp] by (simp_all add: bars_on_row_def)
  have a: "1 \<le> py_mod cp (of_int bars_on_row) \<longrightarrow> num_bars cp = py_mod cp (of_int bars_on_row)"
    by (auto simp: num_bars_def Let_def)
  have b: "py_mod cp (of_int bars_on_row) = 0 \<and> cp \<noteq> 0 \<longrightarrow> num_bars cp = 40"
    by (simp add: num_bars_def Let_def bars_on_row_def)
  have c: "k \<noteq> 0 \<longrightarrow> num_bars (40 * of_int k) = 40"
    using py_mod_multiple [of 40 k] by (simp add: num_bars_def Let_def bars_on_row_def)
  have d: "0 < py_mod cp (of_int bars_on_row) \<and> py_mod cp (of_int bars_on_row) < 1
             \<longrightarrow> num_bars cp = 1"
    by (auto simp: num_bars_def Let_def)
  have e: "cp = 0 \<longrightarrow> num_bars cp = 1"
    by (simp add: num_bars_def Let_def py_mod_def)
  have f: "num_fullbars cp = \<lfloor>num_bars cp\<rfloor>" by (simp add: num_fullbars_def)
  have g: "1 \<le> num_fullbars cp" "num_fullbars cp \<le> 40"
    using num_bars_range [of cp] by (simp_all add: num_fullbars_def le_floor_iff floor_le_iff; linarith)+
  have h: "num_halfbars cp = 1 \<longleftrightarrow> num_bars cp - of_int \<lfloor>num_bars cp\<rfloor> \<le> 0.5"
    by (simp add: num_halfbars_def num_fullbars_def)
  have i: "num_halfbars cp = 0 \<longleftrightarrow> \<not> num_bars cp - of_int \<lfloor>num_bars cp\<rfloor> \<le> 0.5"
    by (simp add: num_halfbars_def num_fullbars_def)
  have j: "bar_line H description_str cp all_completed time_str speed_str msg_str =
       rjust10 description_str @ '' ''
       @ colored H (str_mul heavy_bar (num_fullbars cp))
           (Some (if all_completed then ''yellow'' else ''green'')) []
       @ colored H half_bar (Some (if all_completed then ''yellow'' else ''green'')) []
       @ colored H (str_mul heavy_bar (40 - num_fullbars cp))
           (Some (if all_completed then ''yellow'' else ''green'')) [''dark'']
       @ '' '' @ colored H time_str (Some ''cyan'') []
       @ '' '' @ speed_str @ '' '' @ msg_str"
    by (simp add: bar_line_def Let_def bars_on_row_def)
  from r0 r1 a b c d e f g h i j show ?thesis by blast
qed

theorem num_bars_cases_witness:
  "(1::real) \<le> py_mod 3 (of_int bars_on_row) \<and> num_bars 3 = 3
   \<and> py_mod 80 (of_int bars_on_row) = 0 \<and> (80::real) \<noteq> 0 \<and> num_bars 80 = 40
   \<and> (2::int) \<noteq> 0 \<and> num_bars (40 * of_int 2) = 40
   \<and> 0 < py_mod (81 / 2) (of_int bars_on_row) \<and> py_mod (81 / 2) (of_int bars_on_row) < 1
   \<and> num_bars (81 / 2) = 1
   \<and> num_bars 0 = 1
   \<and> num_fullbars (7 / 2) = 3 \<and> num_halfbars (7 / 2) = 1 \<and> num_halfbars (15 / 4) = 0"
  using num_bars_cases [of 3 2] num_bars_cases [of 80 2] num_bars_cases [of "81 / 2" 2]
        num_bars_cases [of 0 2] num_bars_cases [of "7 / 2" 2] num_bars_cases [of "15 / 4" 2]
  by (simp add: py_mod_def bars_on_row_def num_bars_def num_fullbars_def num_halfbars_def)

text \<open>
  C5 as stated fails. After entry, \<open>update(39.5)\<close> renders at a progress of 40.5; the
  remainder by 40 is 0.5, which is positive and not a multiple of 40, yet \<open>num_bars\<close> is
  1 and not the remainder.
\<close>

theorem num_bars_cases_counterexample:
  "fst (update helpers0 (79 / 2) None None False False
          (snd (pb_enter helpers0 (pb_init ''job'' None, world0)))) = Inr ()
   \<and> completed_progress (fst (snd (update helpers0 (79 / 2) None None False False
          (snd (pb_enter helpers0 (pb_init ''job'' None, world0)))))) = 81 / 2
   \<and> last_rendered_progress (fst (snd (update helpers0 (79 / 2) None None False False
          (snd (pb_enter helpers0 (pb_init ''job'' None, world0)))))) = 81 / 2
   \<and> py_mod (81 / 2) (of_int bars_on_row) = 1 / 2
   \<and> num_bars (81 / 2) = 1
   \<and> num_bars (81 / 2) \<noteq> py_mod (81 / 2) (of_int bars_on_row)"
  by (simp add: pb_enter_def pb_enter_msg_def pb_init_def world0_def update_def Let_def
        perf_counter_def stdout_write_def stdout_flush_def
        py_mod_def bars_on_row_def num_bars_def)

text \<open>
  C4 (as amended). When the last rendered progress is at most 1, \<open>_exit_msg\<close> writes
  the line-clear and flushes, and nothing else. Otherwise the final message is the
  default, the erase-line sequence \<open>ESC [ K\<close> followed by the formatted progress,
  \<open>steps done in\<close> and the readable duration; a non-empty literal \<open>message_on_done\<close>
  replaces it, a callable one is invoked for it, and an empty literal leaves the
  default. Then \<open>update(0, all_completed=True)\<close> renders once more and, when that call
  returns, the final message and a newline are written and standard output is flushed.
\<close>

theorem pb_exit_msg_output:
  "(last_rendered_progress self \<le> 1 \<longrightarrow>
      pb_exit_msg H (self, w)
        = (Inr (), self, w\<lparr>stdout := stdout w @ [Write clear_line, Flush]\<rparr>))
   \<and> (1 < last_rendered_progress self \<and> readable_duration self = Some rd
        \<and> final_msg_of H (on_done self) (completed_progress self) rd = Inr msg
        \<and> start self = Some s \<and> clock w (ticks w) \<noteq> s \<longrightarrow>
      pb_exit_msg H (self, w)
        = (Inr (),
           self\<lparr>last_rendered_progress := completed_progress self,
                num_update_called := num_update_called self + 1\<rparr>,
           w\<lparr>ticks := Suc (ticks w),
             stdout := stdout w @
               [Write clear_line,
                Write (bar_line H (task_name self) (completed_progress self) True
                         (takeWhile (\<lambda>c. c \<noteq> CHR ''.'')
                            (str_timedelta H (clock w (ticks w) - s)))
                         (format_float H ''3.1f''
                            (of_int (num_update_called self + 1) / (clock w (ticks w) - s))
                          @ '' step/s'')
                         []),
                Flush, Write msg, Write [CHR 0x0A], Flush]\<rparr>))
   \<and> (1 < last_rendered_progress self \<and> readable_duration self = Some rd
        \<and> final_msg_of H (on_done self) (completed_progress self) rd = Inl e \<longrightarrow>
      pb_exit_msg H (self, w) = (Inl e, self, w))
   \<and> final_msg_of H None cp rd
       = Inr ([CHR 0x1B] @ ''[K'' @ format_float H ''.0f'' cp @ '' steps done in '' @ rd)
   \<and> final_msg_of H (Some (Literal l)) cp rd
       = Inr (if l = []
              then [CHR 0x1B] @ ''[K'' @ format_float H ''.0f'' cp @ '' steps done in '' @ rd
              else l)
   \<and> final_msg_of H (Some (Callable r)) cp rd = r"
proof (intro conjI impI)
  assume "last_rendered_progress self \<le> 1"
  then show "pb_exit_msg H (self, w)
        = (Inr (), self, w\<lparr>stdout := stdout w @ [Write clear_line, Flush]\<rparr>)"
    by (simp add: pb_exit_msg_def stdout_write_def stdout_flush_def)
next
  assume a: "1 < last_rendered_progress self \<and> readable_duration self = Some rd
        \<and> final_msg_of H (on_done self) (completed_progress self) rd = Inr msg
        \<and> start self = Some s \<and> clock w (ticks w) \<noteq> s"
  have r: "\<not> (\<bar>completed_progress self + 0 - last_rendered_progress self\<bar> < 0.5 \<and> \<not> True)"
    by simp
  from a have st: "start self = Some s" by simp
  from a show "pb_exit_msg H (self, w)
        = (Inr (),
           self\<lparr>last_rendered_progress := completed_progress self,
                num_update_called := num_update_called self + 1\<rparr>,
           w\<lparr>ticks := Suc (ticks w),
             stdout := stdout w @
               [Write clear_line,
                Write (bar_line H (task_name self) (completed_progress self) True
                         (takeWhile (\<lambda>c. c \<noteq> CHR ''.'')
                            (str_timedelta H (clock w (ticks w) - s)))
                         (format_float H ''3.1f''
                            (of_int (num_update_called self + 1) / (clock w (ticks w) - s))
                          @ '' step/s'')
                         []),
                Flush, Write msg, Write [CHR 0x0A], Flush]\<rparr>)"
    by (simp add: pb_exit_msg_def update_render [OF r st] stdout_write_def stdout_flush_def
          str_or_def)
next
  assume "1 < last_rendered_progress self \<and> readable_duration self = Some rd
        \<and> final_msg_of H (on_done self) (completed_progress self) rd = Inl e"
  then show "pb_exit_msg H (self, w) = (Inl e, self, w)"
    by (simp add: pb_exit_msg_def)
qed (simp_all add: final_msg_of_def default_final_msg_def)

theorem pb_exit_msg_output_witness:
  "last_rendered_progress (pb_init ''job'' None) \<le> 1
   \<and> pb_exit_msg helpers0 (pb_init ''job'' None, world0)
       = (Inr (), pb_init ''job'' None, world0\<lparr>stdout := [Write clear_line, Flush]\<rparr>)
   \<and> 1 < last_rendered_progress ((pb_init ''job'' (Some (Literal ''done'')))\<lparr>start := Some 0,
           readable_duration := Some ''3 seconds'', completed_progress := 2,
           last_rendered_progress := 2\<rparr>)
   \<and> clock (world0\<lparr>ticks := 4\<rparr>) (ticks (world0\<lparr>ticks := 4\<rparr>)) \<noteq> 0
   \<and> fst (pb_exit_msg helpers0
        ((pb_init ''job'' (Some (Literal ''done'')))\<lparr>start := Some 0,
           readable_duration := Some ''3 seconds'', completed_progress := 2,
           last_rendered_progress := 2\<rparr>, world0\<lparr>ticks := 4\<rparr>)) = Inr ()
   \<and> drop 3 (stdout (snd (snd (pb_exit_msg helpers0
        ((pb_init ''job'' (Some (Literal ''done'')))\<lparr>start := Some 0,
           readable_duration := Some ''3 seconds'', completed_progress := 2,
           last_rendered_progress := 2\<rparr>, world0\<lparr>ticks := 4\<rparr>)))))
       = [Write ''done'', Write [CHR 0x0A], Flush]
   \<and> pb_exit_msg helpers0
        ((pb_init ''job'' (Some (Callable (Inl (Exception ''ValueError'')))))\<lparr>start := Some 0,
           readable_duration := Some ''3 seconds'', completed_progress := 2,
           last_rendered_progress := 2\<rparr>, world0\<lparr>ticks := 4\<rparr>)
       = (Inl (Exception ''ValueError''),
          (pb_init ''job'' (Some (Callable (Inl (Exception ''ValueError'')))))\<lparr>start := Some 0,
           readable_duration := Some ''3 seconds'', completed_progress := 2,
           last_rendered_progress := 2\<rparr>, world0\<lparr>ticks := 4\<rparr>)"
  using pb_exit_msg_output
          [where self = "pb_init ''job'' None" and H = helpers0 and w = world0
             and rd = "''3 seconds''" and msg = "''done''" and s = 0
             and e = "Exception ''ValueError''"]
        pb_exit_msg_output
          [where self = "(pb_init ''job'' (Some (Literal ''done'')))\<lparr>start := Some 0,
               readable_duration := Some ''3 seconds'', completed_progress := 2,
               last_rendered_progress := 2\<rparr>"
             and H = helpers0 and w = "world0\<lparr>ticks := 4\<rparr>"
             and rd = "''3 seconds''" and msg = "''done''" and s = 0
             and e = "Exception ''ValueError''"]
        pb_exit_msg_output
          [where self = "(pb_init ''job'' (Some (Callable (Inl (Exception ''ValueError'')))))\<lparr>
               start := Some 0,
               readable_duration := Some ''3 seconds'', completed_progress := 2,
               last_rendered_progress := 2\<rparr>"
             and H = helpers0 and w = "world0\<lparr>ticks := 4\<rparr>"
             and rd = "''3 seconds''" and msg = "''done''" and s = 0
             and e = "Exception ''ValueError''"]
  by (simp add: pb_init_def world0_def final_msg_of_def)

text \<open>
  C4 as stated fails. With \<open>message_on_done\<close> the empty literal string, a bar that was
  entered and updated once does not print that literal on exit but the default message
  (here with the placeholder formatters).
\<close>

theorem pb_exit_msg_output_counterexample:
  "fst (pb_session helpers0 ''job'' (Some (Literal [])) [(1, None, None, False, False)] world0)
     = Inr ()
   \<and> drop 9 (stdout (snd (snd (pb_session helpers0 ''job'' (Some (Literal []))
                                   [(1, None, None, False, False)] world0))))
       = [Write ([CHR 0x1B] @ ''[K<float> steps done in <time>''), Write [CHR 0x0A], Flush]
   \<and> Write ([CHR 0x1B] @ ''[K<float> steps done in <time>'') \<noteq> Write []"
  by (simp add: pb_session_def pb_enter_def pb_enter_msg_def pb_exit_def pb_exit_msg_def
        now_def pb_init_def world0_def helpers0_def update_def Let_def perf_counter_def
        stdout_write_def stdout_flush_def final_msg_of_def default_final_msg_def)

text \<open>
  With a strictly increasing clock every elapsed time is positive, so no call on an
  entered bar raises. The facts carried from call to call: \<open>start\<close> is a reading of the
  clock taken before the calls still to come.
\<close>

lemma update_returns:
  assumes "strict_mono (clock w)" "start self = Some (clock w k)" "k < ticks w"
  shows "\<exists>self' w'. update H progress description message all_completed first_enter (self, w)
                      = (Inr (), self', w')
           \<and> completed_progress self' = completed_progress self + progress
           \<and> start self' = start self \<and> on_done self' = on_done self
           \<and> clock w' = clock w \<and> ticks w \<le> ticks w'"
proof (cases "\<bar>completed_progress self + progress - last_rendered_progress self\<bar> < 0.5
              \<and> \<not> all_completed")
  case True
  then show ?thesis by (simp add: update_skip)
next
  case False
  from assms(1,3) have "clock w k < clock w (ticks w)"
    by (simp add: strict_mono_def)
  then have "clock w (ticks w) - clock w k \<noteq> 0" by simp
  then show ?thesis by (simp add: update_render [OF False assms(2)])
qed

lemma pb_updates_returns:
  assumes "strict_mono (clock w)" "start self = Some (clock w k)" "k < ticks w"
  shows "\<exists>self' w'. pb_updates H cs (self, w) = (Inr (), self', w')
           \<and> completed_progress self' = completed_progress self + sum_list (map fst cs)
           \<and> start self' = start self \<and> on_done self' = on_done self
           \<and> clock w' = clock w \<and> ticks w \<le> ticks w'"
  using assms
proof (induction cs arbitrary: self w)
  case Nil
  then show ?case by simp
next
  case (Cons c cs)
  obtain p d m ac fe where c: "c = (p, d, m, ac, fe)" by (cases c)
  from update_returns [OF Cons.prems, of H p d m ac fe] obtain self1 w1 where
    u: "update H p d m ac fe (self, w) = (Inr (), self1, w1)"
    and cp: "completed_progress self1 = completed_progress self + p"
    and st: "start self1 = start self" and od: "on_done self1 = on_done self"
    and cl: "clock w1 = clock w" and ti: "ticks w \<le> ticks w1"
    by blast
  have "strict_mono (clock w1)" using Cons.prems(1) cl by simp
  moreover have "start self1 = Some (clock w1 k)" using Cons.prems(2) st cl by simp
  moreover have "k < ticks w1" using Cons.prems(3) ti by simp
  ultimately obtain self' w' where
    r: "pb_updates H cs (self1, w1) = (Inr (), self', w')"
    and cp': "completed_progress self' = completed_progress self1 + sum_list (map fst cs)"
    and st': "start self' = start self1" and od': "on_done self' = on_done self1"
    and cl': "clock w' = clock w1" and ti': "ticks w1 \<le> ticks w'"
    using Cons.IH [of w1 self1] by blast
  have "pb_updates H (c # cs) (self, w) = (Inr (), self', w')"
    using c u r by simp
  moreover have "completed_progress self' = completed_progress self + sum_list (map fst (c # cs))"
    using c cp cp' by simp
  ultimately show ?case using st st' od od' cl cl' ti ti' by auto
qed

lemma pb_exit_returns:
  assumes "strict_mono (clock w)" "start self = Some (clock w k)" "k < ticks w"
    and "on_done self = None"
  shows "\<exists>self' w'. pb_exit H (self, w) = (Inr (), self', w')
           \<and> completed_progress self' = completed_progress self
           \<and> duration self' = clock w (ticks w) - clock w k
           \<and> (1 < last_rendered_progress self \<longrightarrow>
                (\<exists>pre. stdout w' = pre @
                   [Write (default_final_msg H (completed_progress self)
                             (get_readable_time H (duration self'))),
                    Write [CHR 0x0A], Flush]))
           \<and> (last_rendered_progress self \<le> 1 \<longrightarrow>
                stdout w' = stdout w @ [Write clear_line, Flush])"
proof -
  let ?d = "clock w (ticks w) - clock w k"
  let ?self1 = "self\<lparr>duration := ?d, readable_duration := Some (get_readable_time H ?d)\<rparr>"
  let ?w1 = "w\<lparr>ticks := Suc (ticks w)\<rparr>"
  have ex: "pb_exit H (self, w) = pb_exit_msg H (?self1, ?w1)"
    using assms(2) by (simp add: pb_exit_def now_def perf_counter_def)
  show ?thesis
  proof (cases "1 < last_rendered_progress self")
    case False
    then show ?thesis
      by (simp add: ex pb_exit_msg_def stdout_write_def stdout_flush_def)
  next
    case True
    have sm: "strict_mono (clock ?w1)" using assms(1) by simp
    have st: "start ?self1 = Some (clock ?w1 k)" using assms(2) by simp
    have kt: "k < ticks ?w1" using assms(3) by simp
    from update_returns [OF sm st kt, of H 0 None None True False] obtain self2 w2 where
      u: "update H 0 None None True False (?self1, ?w1) = (Inr (), self2, w2)"
      and cp: "completed_progress self2 = completed_progress ?self1 + 0"
      by blast
    have du: "duration self2 = ?d"
      using u assms(2) by (auto simp: update_def Let_def perf_counter_def split: if_splits)
    have "pb_exit H (self, w) =
            (Inr (), self2,
             stdout_flush (stdout_write [CHR 0x0A]
               (stdout_write (default_final_msg H (completed_progress self)
                                (get_readable_time H ?d)) w2)))"
      using True assms(4) u by (simp add: ex pb_exit_msg_def final_msg_of_def)
    then show ?thesis
      using True cp du by (simp add: stdout_write_def stdout_flush_def)
  qed
qed

text \<open>
  C9. Entering a freshly made ProgressBar calls \<open>update\<close> with the default progress
  1.0 and \<open>first_enter\<close> true: the call always renders and returns, and the progress
  counter is 1 after it, with no user update made. The unit stays in the counter:
  after user updates with progress values \<open>cs\<close> the counter is 1 plus their sum, and
  that is the number the default summary formats on exit. (The calls return under a
  strictly increasing clock, which keeps every elapsed time positive.)
\<close>

theorem pb_enter_counts_one:
  "pb_enter H (pb_init description od, w) =
     (Inr (),
      (pb_init description od)\<lparr>start := Some (clock w (ticks w)),
         completed_progress := 1, last_rendered_progress := 1\<rparr>,
      w\<lparr>ticks := Suc (Suc (ticks w)),
        stdout := stdout w @
          [Write clear_line,
           Write (bar_line H description 1 False ''-:--:--'' ''estimating...'' []),
           Flush]\<rparr>)
   \<and> (strict_mono (clock w) \<longrightarrow>
        (\<exists>self1 w1 self2 w2.
           pb_updates H cs (snd (pb_enter H (pb_init description None, w)))
             = (Inr (), self1, w1)
           \<and> completed_progress self1 = 1 + sum_list (map fst cs)
           \<and> pb_session H description None cs w = (Inr (), self2, w2)
           \<and> completed_progress self2 = 1 + sum_list (map fst cs)
           \<and> (1 < last_rendered_progress self1 \<longrightarrow>
                (\<exists>pre. stdout w2 = pre @
                   [Write ([CHR 0x1B] @ ''[K''
                             @ format_float H ''.0f'' (1 + sum_list (map fst cs))
                             @ '' steps done in '' @ get_readable_time H (duration self2)),
                    Write [CHR 0x0A], Flush]))
           \<and> (last_rendered_progress self1 \<le> 1 \<longrightarrow>
                stdout w2 = stdout w1 @ [Write clear_line, Flush])))"
proof (intro conjI impI)
  have r: "\<not> (\<bar>completed_progress ((pb_init description od)\<lparr>start := Some (clock w (ticks w))\<rparr>)
                 + 1 - last_rendered_progress
                         ((pb_init description od)\<lparr>start := Some (clock w (ticks w))\<rparr>)\<bar> < 0.5
              \<and> \<not> False)"
    by (simp add: pb_init_def)
  have st: "start ((pb_init description od)\<lparr>start := Some (clock w (ticks w))\<rparr>)
              = Some (clock w (ticks w))"
    by simp
  show "pb_enter H (pb_init description od, w) =
     (Inr (),
      (pb_init description od)\<lparr>start := Some (clock w (ticks w)),
         completed_progress := 1, last_rendered_progress := 1\<rparr>,
      w\<lparr>ticks := Suc (Suc (ticks w)),
        stdout := stdout w @
          [Write clear_line,
           Write (bar_line H description 1 False ''-:--:--'' ''estimating...'' []),
           Flush]\<rparr>)"
    by (simp add: pb_enter_def pb_enter_msg_def perf_counter_def update_render [OF r st])
       (simp add: pb_init_def str_or_def)
next
  assume sm: "strict_mono (clock w)"
  let ?self0 = "(pb_init description None)\<lparr>start := Some (clock w (ticks w)),
         completed_progress := 1, last_rendered_progress := 1\<rparr>"
  let ?w0 = "w\<lparr>ticks := Suc (Suc (ticks w)),
        stdout := stdout w @
          [Write clear_line,
           Write (bar_line H description 1 False ''-:--:--'' ''estimating...'' []),
           Flush]\<rparr>"
  have r: "\<not> (\<bar>completed_progress ((pb_init description None)\<lparr>start := Some (clock w (ticks w))\<rparr>)
                 + 1 - last_rendered_progress
                         ((pb_init description None)\<lparr>start := Some (clock w (ticks w))\<rparr>)\<bar> < 0.5
              \<and> \<not> False)"
    by (simp add: pb_init_def)
  have st: "start ((pb_init description None)\<lparr>start := Some (clock w (ticks w))\<rparr>)
              = Some (clock w (ticks w))"
    by simp
  have en: "pb_enter H (pb_init description None, w) = (Inr (), ?self0, ?w0)"
    by (simp add: pb_enter_def pb_enter_msg_def perf_counter_def update_render [OF r st])
       (simp add: pb_init_def str_or_def)
  have sm0: "strict_mono (clock ?w0)" using sm by simp
  have st0: "start ?self0 = Some (clock ?w0 (ticks w))" by simp
  have kt0: "ticks w < ticks ?w0" by simp
  from pb_updates_returns [OF sm0 st0 kt0, of H cs] obtain self1 w1 where
    up: "pb_updates H cs (?self0, ?w0) = (Inr (), self1, w1)"
    and cp1: "completed_progress self1 = completed_progress ?self0 + sum_list (map fst cs)"
    and st1: "start self1 = start ?self0" and od1: "on_done self1 = on_done ?self0"
    and cl1: "clock w1 = clock ?w0" and ti1: "ticks ?w0 \<le> ticks w1"
    by blast
  have sm1: "strict_mono (clock w1)" using sm cl1 by simp
  have st1': "start self1 = Some (clock w1 (ticks w))" using st1 cl1 by simp
  have kt1: "ticks w < ticks w1" using ti1 by simp
  have od1': "on_done self1 = None" using od1 by (simp add: pb_init_def)
  from pb_exit_returns [OF sm1 st1' kt1 od1', of H] obtain self2 w2 where
    ex: "pb_exit H (self1, w1) = (Inr (), self2, w2)"
    and cp2: "completed_progress self2 = completed_progress self1"
    and s1: "1 < last_rendered_progress self1 \<longrightarrow>
                (\<exists>pre. stdout w2 = pre @
                   [Write (default_final_msg H (completed_progress self1)
                             (get_readable_time H (duration self2))),
                    Write [CHR 0x0A], Flush])"
    and s2: "last_rendered_progress self1 \<le> 1 \<longrightarrow>
                stdout w2 = stdout w1 @ [Write clear_line, Flush]"
    by blast
  have c1: "completed_progress self1 = 1 + sum_list (map fst cs)" using cp1 by simp
  have se: "pb_session H description None cs w = (Inr (), self2, w2)"
    using en up ex by (simp add: pb_session_def)
  have "pb_updates H cs (snd (pb_enter H (pb_init description None, w))) = (Inr (), self1, w1)"
    using en up by simp
  moreover have "completed_progress self2 = 1 + sum_list (map fst cs)" using cp2 c1 by simp
  moreover have "1 < last_rendered_progress self1 \<longrightarrow>
                (\<exists>pre. stdout w2 = pre @
                   [Write ([CHR 0x1B] @ ''[K''
                             @ format_float H ''.0f'' (1 + sum_list (map fst cs))
                             @ '' steps done in '' @ get_readable_time H (duration self2)),
                    Write [CHR 0x0A], Flush])"
    using s1 c1 by (simp add: default_final_msg_def)
  ultimately show "\<exists>self1 w1 self2 w2.
           pb_updates H cs (snd (pb_enter H (pb_init description None, w)))
             = (Inr (), self1, w1)
           \<and> completed_progress self1 = 1 + sum_list (map fst cs)
           \<and> pb_session H description None cs w = (Inr (), self2, w2)
           \<and> completed_progress self2 = 1 + sum_list (map fst cs)
           \<and> (1 < last_rendered_progress self1 \<longrightarrow>
                (\<exists>pre. stdout w2 = pre @
                   [Write ([CHR 0x1B] @ ''[K''
                             @ format_float H ''.0f'' (1 + sum_list (map fst cs))
                             @ '' steps done in '' @ get_readable_time H (duration self2)),
                    Write [CHR 0x0A], Flush]))
           \<and> (last_rendered_progress self1 \<le> 1 \<longrightarrow>
                stdout w2 = stdout w1 @ [Write clear_line, Flush])"
    using c1 se s2 by blast
qed

theorem pb_enter_counts_one_witness:
  "strict_mono (clock world0)
   \<and> completed_progress (fst (snd (pb_enter helpers0 (pb_init ''job'' None, world0)))) = 1
   \<and> fst (pb_session helpers0 ''job'' None [(1, None, None, False, False)] world0) = Inr ()
   \<and> completed_progress (fst (snd (pb_session helpers0 ''job'' None
         [(1, None, None, False, False)] world0))) = 2
   \<and> 1 < last_rendered_progress (fst (snd (pb_updates helpers0 [(1, None, None, False, False)]
         (snd (pb_enter helpers0 (pb_init ''job'' None, world0))))))
   \<and> drop 9 (stdout (snd (snd (pb_session helpers0 ''job'' None
         [(1, None, None, False, False)] world0))))
       = [Write ([CHR 0x1B] @ ''[K'' @ format_float helpers0 ''.0f'' (1 + 1)
                   @ '' steps done in '' @ get_readable_time helpers0 3),
          Write [CHR 0x0A], Flush]"
  using pb_enter_counts_one
          [where H = helpers0 and description = "''job''" and od = None and w = world0
             and cs = "[(1, None, None, False, False)]"]
  by (simp add: pb_session_def pb_enter_def pb_enter_msg_def pb_exit_def pb_exit_msg_def
        now_def pb_init_def world0_def helpers0_def update_def Let_def perf_counter_def
        stdout_write_def stdout_flush_def final_msg_of_def default_final_msg_def
        strict_mono_def)

end
